theory Spec2Isabelle
  imports Main "HOL-Library.Word"
begin

unbundle bit_operations_syntax

section \<open>The dialer of src/yggdrasil/dialer.go\<close>

text \<open>
  The embedding follows \<^verbatim>\<open>dialer.go\<close> function by function. Go byte slices and
  fixed-size byte arrays are lists of 8-bit words, Go strings are HOL strings (lists of
  bytes), instants and durations are integers counting nanoseconds, as
  \<^verbatim>\<open>time.Duration\<close> does. Every effect of a dial on its collaborators is written
  to a trace of events, returned next to the outcome.
\<close>

type_synonym byte = "8 word"
type_synonym time = int

subsection \<open>Standard library: encoding/hex, strconv, strings, copy\<close>

datatype hex_error = ErrLength | InvalidByteError char

text \<open>\<^verbatim>\<open>hex.fromHexChar\<close>: the value of a hexadecimal digit, of either case.\<close>

definition fromHexChar :: "char \<Rightarrow> byte option" where
  "fromHexChar c =
     (let k = (of_char c :: nat)
      in if 48 \<le> k \<and> k \<le> 57 then Some (of_nat (k - 48))
         else if 97 \<le> k \<and> k \<le> 102 then Some (of_nat (k - 97 + 10))
         else if 65 \<le> k \<and> k \<le> 70 then Some (of_nat (k - 65 + 10))
         else None)"

text \<open>
  \<^verbatim>\<open>hex.DecodeString\<close>: two digits make one byte, high nibble first; the first
  character that is no hexadecimal digit is reported, and an odd number of digits is
  \<^verbatim>\<open>ErrLength\<close>.
\<close>

fun hex_DecodeString :: "string \<Rightarrow> hex_error + byte list" where
  "hex_DecodeString [] = Inr []"
| "hex_DecodeString [p] =
     (case fromHexChar p of
        None \<Rightarrow> Inl (InvalidByteError p)
      | Some a \<Rightarrow> Inl ErrLength)"
| "hex_DecodeString (p # q # rest) =
     (case fromHexChar p of
        None \<Rightarrow> Inl (InvalidByteError p)
      | Some a \<Rightarrow>
          (case fromHexChar q of
             None \<Rightarrow> Inl (InvalidByteError q)
           | Some b \<Rightarrow>
               (case hex_DecodeString rest of
                  Inl e \<Rightarrow> Inl e
                | Inr bs \<Rightarrow> Inr ((push_bit 4 a OR b) # bs))))"

datatype num_error = ErrSyntax | ErrRange

definition isDigit :: "char \<Rightarrow> bool" where
  "isDigit c = (48 \<le> (of_char c :: nat) \<and> (of_char c :: nat) \<le> 57)"

text \<open>
  The loop of \<^verbatim>\<open>strconv.ParseUint\<close> in base 10, over the characters after the
  sign, with the value read so far: the first character that is no digit is a syntax
  error; a digit with which the value leaves the range of \<^verbatim>\<open>uint64\<close> is a range
  error, returned at once, before the characters behind it are looked at.
\<close>

fun ParseUint_loop :: "int \<Rightarrow> string \<Rightarrow> num_error + int" where
  "ParseUint_loop n [] = Inr n"
| "ParseUint_loop n (c # cs) =
     (if \<not> isDigit c then Inl ErrSyntax
      else if n \<ge> (2 ^ 64 - 1) div 10 + 1 then Inl ErrRange
      else if n * 10 + (int (of_char c) - 48) > 2 ^ 64 - 1 then Inl ErrRange
      else ParseUint_loop (n * 10 + (int (of_char c) - 48)) cs)"

text \<open>
  \<^verbatim>\<open>strconv.Atoi\<close> on a 64-bit platform: an optional sign, then at least one
  character, read by the loop above; a value outside the range of \<^verbatim>\<open>int\<close> is
  \<^verbatim>\<open>ErrRange\<close>.
\<close>

definition Atoi :: "string \<Rightarrow> num_error + int" where
  "Atoi s =
     (case s of
        [] \<Rightarrow> Inl ErrSyntax
      | c # cs \<Rightarrow>
          (let neg = (c = CHR ''-'');
               ds = (if c = CHR ''-'' \<or> c = CHR ''+'' then cs else s)
           in if ds = [] then Inl ErrSyntax
              else (case ParseUint_loop 0 ds of
                      Inl err \<Rightarrow> Inl err
                    | Inr un \<Rightarrow>
                        if \<not> neg \<and> un \<ge> 2 ^ 63 then Inl ErrRange
                        else if neg \<and> un > 2 ^ 63 then Inl ErrRange
                        else Inr (if neg then - un else un))))"

text \<open>
  \<^verbatim>\<open>strings.Split(s, sep)\<close> for a separator of one character: the pieces between
  the separators, one more than there are separators, so never an empty list.
\<close>

fun Split :: "string \<Rightarrow> char \<Rightarrow> string list" where
  "Split [] sep = [[]]"
| "Split (c # cs) sep =
     (if c = sep then [] # Split cs sep
      else (c # hd (Split cs sep)) # tl (Split cs sep))"

text \<open>
  \<^verbatim>\<open>copy(arr[:], src)\<close> into a fresh (zeroed) array of \<open>n\<close> bytes: the first
  \<open>min n (len src)\<close> bytes are copied, a longer source is cut and a shorter one leaves
  the zeros in place.
\<close>

definition copy_array :: "nat \<Rightarrow> byte list \<Rightarrow> byte list" where
  "copy_array n src = take n src @ replicate (n - length src) 0"

subsection \<open>Standard library: context\<close>

text \<open>
  A context is known to the dialer through its deadline and through the instant its
  \<^verbatim>\<open>Done\<close> channel is closed. \<open>cancelled\<close> is the instant at which the caller
  cancels it (\<open>None\<close>: never); the deadline closes \<^verbatim>\<open>Done\<close> too.
\<close>

record Context =
  deadline :: "time option"
  cancelled :: "time option"

definition Background :: Context where
  "Background = \<lparr>deadline = None, cancelled = None\<rparr>"

definition Second :: time where
  "Second = 1000000000"

text \<open>
  \<^verbatim>\<open>context.WithTimeout(parent, d)\<close> called at instant \<open>now\<close> is
  \<^verbatim>\<open>WithDeadline(parent, now + d)\<close>: a parent whose deadline is already sooner keeps
  it, otherwise the new deadline is installed. The parent's cancellation is inherited.
\<close>

definition WithTimeout :: "Context \<Rightarrow> time \<Rightarrow> time \<Rightarrow> Context" where
  "WithTimeout parent now d =
     (case deadline parent of
        Some cur \<Rightarrow> if cur < now + d then parent else parent\<lparr>deadline := Some (now + d)\<rparr>
      | None \<Rightarrow> parent\<lparr>deadline := Some (now + d)\<rparr>)"

text \<open>The instant at which \<^verbatim>\<open>ctx.Done()\<close> is closed, if ever.\<close>

definition Done :: "Context \<Rightarrow> time option" where
  "Done c =
     (case (deadline c, cancelled c) of
        (None, None) \<Rightarrow> None
      | (Some d, None) \<Rightarrow> Some d
      | (None, Some k) \<Rightarrow> Some k
      | (Some d, Some k) \<Rightarrow> Some (min d k))"

subsection \<open>The select statement\<close>

datatype select_case = CaseInit | CaseDone

text \<open>
  \<^verbatim>\<open>select { case <-init: ... case <-done: ... }\<close> entered at instant \<open>now\<close>,
  where \<open>init\<close> and \<open>done\<close> are the instants at which the two channels are closed
  (\<open>None\<close>: never). A case whose channel is closed when the statement is entered is
  ready; with both ready Go chooses one of them at random, which is the argument
  \<open>pick\<close>. With none ready the goroutine sleeps until the first channel is closed;
  two channels closed at the same instant are again left to \<open>pick\<close>. With no channel
  ever closed the statement never returns (\<open>None\<close>).
\<close>

definition ready :: "time option \<Rightarrow> time \<Rightarrow> bool" where
  "ready ch now = (case ch of None \<Rightarrow> False | Some t \<Rightarrow> t \<le> now)"

definition select_init_done ::
  "time \<Rightarrow> time option \<Rightarrow> time option \<Rightarrow> select_case \<Rightarrow> select_case option" where
  "select_init_done now init done pick =
     (if ready init now \<and> ready done now then Some pick
      else if ready init now then Some CaseInit
      else if ready done now then Some CaseDone
      else (case (init, done) of
              (None, None) \<Rightarrow> None
            | (Some h, None) \<Rightarrow> Some CaseInit
            | (None, Some d) \<Rightarrow> Some CaseDone
            | (Some h, Some d) \<Rightarrow>
                if h < d then Some CaseInit
                else if d < h then Some CaseDone
                else Some pick))"

subsection \<open>The collaborators of a dialer\<close>

text \<open>
  The package \<^verbatim>\<open>crypto\<close> and the session and search code of the core lie outside
  \<^verbatim>\<open>dialer.go\<close>, so a \<open>Dialer\<close> carries what \<^verbatim>\<open>dialer.go\<close> takes from
  them: the two array lengths and the key-to-identifier function of \<^verbatim>\<open>crypto\<close>,
  the result of \<^verbatim>\<open>conn.search()\<close> for a target (\<open>None\<close> is a nil error), the
  readings of \<^verbatim>\<open>time.Now()\<close> when the dial starts and when the search has returned,
  the instant at which \<^verbatim>\<open>conn.session.init\<close> is closed (\<open>None\<close>: never), and the
  choice the runtime makes in a select statement with two ready cases. The clock
  advances only while the goroutine waits (in the search and in the select statement).
\<close>

record Dialer =
  NodeIDLen :: nat
  BoxPubKeyLen :: nat
  GetNodeID :: "byte list \<Rightarrow> byte list"
  search :: "byte list \<Rightarrow> byte list \<Rightarrow> string option"
  startDial :: time
  endSearch :: "byte list \<Rightarrow> byte list \<Rightarrow> time"
  session_init :: "byte list \<Rightarrow> byte list \<Rightarrow> time option"
  select_pick :: select_case

datatype Conn = Conn "byte list" "byte list"

datatype error =
    HexError hex_error
  | NumError num_error
  | InvalidKeyLength
  | UnexpectedAddressType string
  | SearchError string
  | SessionHandshakeTimeout

text \<open>
  What a call does: it returns a connection and a nil error, it returns an error, it
  stops in a runtime panic (an index out of range), or it never returns.
\<close>

datatype outcome = Return Conn | Fail error | Panic | Blocked

datatype event =
    NewConn "byte list" "byte list"
  | Search
  | Close
  | SetConn
  | Debugln string time
  | Select Context
  | Cancel

subsection \<open>DialByNodeIDandMask\<close>

text \<open>Lines 96 to 99: a nil context is the background context, then the timeout of six
  seconds is laid over it at the instant \<open>now\<close>.\<close>

definition handshake_context :: "Context option \<Rightarrow> time \<Rightarrow> Context" where
  "handshake_context ctx now =
     WithTimeout (case ctx of None \<Rightarrow> Background | Some c \<Rightarrow> c) now (6 * Second)"

definition DialByNodeIDandMask ::
  "Dialer \<Rightarrow> Context option \<Rightarrow> byte list \<Rightarrow> byte list \<Rightarrow> outcome \<times> event list" where
  "DialByNodeIDandMask d ctx nodeID nodeMask =
     (case search d nodeID nodeMask of
        Some err \<Rightarrow> (Fail (SearchError err), [NewConn nodeID nodeMask, Search, Close])
      | None \<Rightarrow>
          (let endS = endSearch d nodeID nodeMask;
               ctx' = handshake_context ctx endS;
               init = session_init d nodeID nodeMask;
               pre = [NewConn nodeID nodeMask, Search,
                      Debugln ''Dial searched for:'' (endS - startDial d),
                      SetConn, Select ctx']
           in case select_init_done endS init (Done ctx') (select_pick d) of
                None \<Rightarrow> (Blocked, pre)
              | Some CaseInit \<Rightarrow>
                  (let endInit = (case init of None \<Rightarrow> endS | Some h \<Rightarrow> max endS h)
                   in (Return (Conn nodeID nodeMask),
                       pre @ [Debugln ''Dial initialized session for:'' (endInit - endS),
                              Debugln ''Finished dial for:'' (endInit - startDial d),
                              Cancel]))
              | Some CaseDone \<Rightarrow>
                  (Fail SessionHandshakeTimeout, pre @ [Close, Cancel])))"

subsection \<open>DialByPublicKey\<close>

text \<open>\<^verbatim>\<open>for i := range nodeMask { nodeMask[i] = 0xFF }\<close>\<close>

definition fill_mask :: "byte list \<Rightarrow> byte list" where
  "fill_mask m = fold (\<lambda>i a. a[i := 0xFF]) [0..<length m] m"

definition DialByPublicKey ::
  "Dialer \<Rightarrow> Context option \<Rightarrow> byte list \<Rightarrow> outcome \<times> event list" where
  "DialByPublicKey d ctx pubKey =
     DialByNodeIDandMask d ctx (GetNodeID d pubKey) (fill_mask (replicate (NodeIDLen d) 0))"

subsection \<open>DialContext and Dial\<close>

text \<open>
  \<^verbatim>\<open>for idx := 0; idx < l; idx++ { nodeMask[idx/8] |= 0x80 >> byte(idx%8) }\<close>.
  The index of the array is checked as Go checks it: outside the array the loop panics
  (\<open>None\<close>). \<open>idx\<close> starts at 0 and only grows, so it is a natural number; the bound
  \<open>l\<close> is what \<^verbatim>\<open>Atoi\<close> returned and may be negative.
\<close>

function prefix_mask :: "int \<Rightarrow> nat \<Rightarrow> byte list \<Rightarrow> byte list option" where
  "prefix_mask l idx m =
     (if int idx < l
      then (if idx div 8 < length m
            then prefix_mask l (idx + 1)
                   (m[idx div 8 := (m ! (idx div 8)) OR drop_bit (idx mod 8) 0x80])
            else None)
      else Some m)"
  by pat_completeness auto
termination
  by (relation "measure (\<lambda>(l, idx, m). nat (l - int idx))") auto

definition DialContext ::
  "Dialer \<Rightarrow> Context option \<Rightarrow> string \<Rightarrow> string \<Rightarrow> outcome \<times> event list" where
  "DialContext d ctx network address =
     (if network = ''http'' \<or> network = ''curve25519'' then
        (case hex_DecodeString address of
           Inl err \<Rightarrow> (Fail (HexError err), [])
         | Inr dest \<Rightarrow>
             if length dest \<noteq> BoxPubKeyLen d then (Fail InvalidKeyLength, [])
             else DialByPublicKey d ctx (copy_array (BoxPubKeyLen d) dest))
      else if network = ''nodeid'' then
        (let tokens = Split address (CHR ''/'')
         in if length tokens = 2 then
              (case Atoi (tokens ! 1) of
                 Inl err \<Rightarrow> (Fail (NumError err), [])
               | Inr l \<Rightarrow>
                   (case hex_DecodeString (tokens ! 0) of
                      Inl err \<Rightarrow> (Fail (HexError err), [])
                    | Inr dest \<Rightarrow>
                        (case prefix_mask l 0 (replicate (NodeIDLen d) 0) of
                           None \<Rightarrow> (Panic, [])
                         | Some nodeMask \<Rightarrow>
                             DialByNodeIDandMask d ctx
                               (copy_array (NodeIDLen d) dest) nodeMask)))
            else
              (case hex_DecodeString (tokens ! 0) of
                 Inl err \<Rightarrow> (Fail (HexError err), [])
               | Inr dest \<Rightarrow>
                   DialByNodeIDandMask d ctx (copy_array (NodeIDLen d) dest)
                     (fill_mask (replicate (NodeIDLen d) 0))))
      else (Fail (UnexpectedAddressType network), []))"

definition Dial :: "Dialer \<Rightarrow> string \<Rightarrow> string \<Rightarrow> outcome \<times> event list" where
  "Dial d network address = DialContext d None network address"

subsection \<open>The vocabulary of the specification\<close>

text \<open>The error kinds of the specification, and the kind of each error the dialer returns.\<close>

datatype error_kind = InvalidAddress | UnsupportedScheme | SearchFailed | HandshakeTimedOut

fun kind :: "error \<Rightarrow> error_kind" where
  "kind (HexError e) = InvalidAddress"
| "kind (NumError e) = InvalidAddress"
| "kind InvalidKeyLength = InvalidAddress"
| "kind (UnexpectedAddressType n) = UnsupportedScheme"
| "kind (SearchError c) = SearchFailed"
| "kind SessionHandshakeTimeout = HandshakeTimedOut"

text \<open>Bit \<open>i\<close> of an identifier or mask, counted from the most significant bit of the
  first byte.\<close>

definition mask_bit :: "byte list \<Rightarrow> nat \<Rightarrow> bool" where
  "mask_bit m i = bit (m ! (i div 8)) (7 - i mod 8)"

text \<open>A mask of \<open>n\<close> bytes whose first \<open>p\<close> bits are set and whose other bits are clear.\<close>

definition prefix_of_ones :: "nat \<Rightarrow> nat \<Rightarrow> byte list \<Rightarrow> bool" where
  "prefix_of_ones n p m = (length m = n \<and> list_all (\<lambda>i. mask_bit m i = (i < p)) [0..<8 * n])"

text \<open>The all-ones mask of \<open>n\<close> bytes.\<close>

definition all_ones :: "nat \<Rightarrow> byte list" where
  "all_ones n = replicate n 0xFF"

text \<open>
  The effective deadline in the words of the specification, for a lookup that completed
  at \<open>done_at\<close>: without a deadline of the caller the completion time plus six seconds,
  with one the earlier of the two.
\<close>

definition spec_effective_deadline :: "Context option \<Rightarrow> time \<Rightarrow> time" where
  "spec_effective_deadline ctx done_at =
     (case ctx of
        None \<Rightarrow> done_at + 6 * Second
      | Some c \<Rightarrow>
          (case deadline c of
             None \<Rightarrow> done_at + 6 * Second
           | Some t \<Rightarrow> min t (done_at + 6 * Second)))"

text \<open>The instant at which the caller cancels the context, if ever; a nil context is
  never cancelled.\<close>

definition caller_cancel :: "Context option \<Rightarrow> time option" where
  "caller_cancel ctx = (case ctx of None \<Rightarrow> None | Some c \<Rightarrow> cancelled c)"

text \<open>The lookups a trace holds: a dial that triggers no lookup has none.\<close>

definition lookups :: "event list \<Rightarrow> nat" where
  "lookups tr = length (filter (\<lambda>ev. ev = Search) tr)"

text \<open>The contexts on which the handshake was awaited, in order.\<close>

fun waits :: "event list \<Rightarrow> Context list" where
  "waits [] = []"
| "waits (Select c # tr) = c # waits tr"
| "waits (ev # tr) = waits tr"

subsection \<open>Concrete dialers and contexts\<close>

text \<open>
  A dialer with the lengths of the \<^verbatim>\<open>crypto\<close> package (an identifier of 64 bytes,
  a public key of 32 bytes) whose lookups succeed 100 ms after the dial started and
  whose handshakes complete 50 ms later. The key-to-identifier function is a stand-in
  for the hash of the package.
\<close>

definition example_dialer :: Dialer where
  "example_dialer =
     \<lparr>NodeIDLen = 64, BoxPubKeyLen = 32,
      GetNodeID = (\<lambda>k. copy_array 64 (rev k @ k)),
      search = (\<lambda>i m. None),
      startDial = 0,
      endSearch = (\<lambda>i m. 100000000),
      session_init = (\<lambda>i m. Some 150000000),
      select_pick = CaseInit\<rparr>"

text \<open>
  The same dialer where the lookup takes three seconds and the session of the target
  completed its handshake two seconds after the dial started, and a context of the
  caller whose deadline is one second after the start of the dial.
\<close>

definition late_dialer :: Dialer where
  "late_dialer =
     example_dialer\<lparr>endSearch := (\<lambda>i m. 3 * Second),
                    session_init := (\<lambda>i m. Some (2 * Second))\<rparr>"

definition one_second_context :: Context where
  "one_second_context = \<lparr>deadline = Some (1 * Second), cancelled = None\<rparr>"

text \<open>A target: the identifier that begins with the bytes AB CD, matched exactly.\<close>

definition example_nodeID :: "byte list" where
  "example_nodeID = copy_array 64 [0xAB, 0xCD]"

definition example_nodeMask :: "byte list" where
  "example_nodeMask = all_ones 64"

text \<open>A dialer whose lookups fail, and one whose handshakes never complete.\<close>

definition lost_dialer :: Dialer where
  "lost_dialer = example_dialer\<lparr>search := (\<lambda>i m. Some ''search failed'')\<rparr>"

definition silent_dialer :: Dialer where
  "silent_dialer = example_dialer\<lparr>session_init := (\<lambda>i m. None)\<rparr>"

section \<open>Properties of the loops\<close>

declare prefix_mask.simps [simp del]

lemma bit_top_byte: "bit (0x80 :: byte) j \<longleftrightarrow> j = 7"
proof -
  have "(0x80 :: byte) = 2 ^ 7" by simp
  then show ?thesis by (simp only: bit_exp_iff) auto
qed

lemma bit_shifted_top: "bit (drop_bit k (0x80 :: byte)) j \<longleftrightarrow> k + j = 7"
  by (simp only: bit_drop_bit_eq comp_def bit_top_byte)

lemma fold_update_prefix:
  "k \<le> length m \<Longrightarrow> fold (\<lambda>i a. a[i := v]) [0..<k] m = replicate k v @ drop k m"
proof (induction k)
  case 0
  then show ?case by simp
next
  case (Suc k)
  then have "k < length m" by simp
  then have "(replicate k v @ drop k m)[k := v] = replicate (Suc k) v @ drop (Suc k) m"
    by (simp add: list_update_append replicate_append_same upd_conv_take_nth_drop)
  with Suc show ?case by simp
qed

lemma fill_mask_zero: "fill_mask (replicate n 0) = all_ones n"
  by (simp add: fill_mask_def all_ones_def fold_update_prefix)

lemma mask_bit_step:
  assumes len: "length m = n" and idx: "idx < 8 * n" and i: "i < 8 * n"
    and inv: "\<forall>j<8 * n. mask_bit m j = (j < idx)"
  shows "mask_bit (m[idx div 8 := (m ! (idx div 8)) OR drop_bit (idx mod 8) 0x80]) i = (i < Suc idx)"
proof (cases "i div 8 = idx div 8")
  case True
  have d: "idx div 8 < length m" using len idx by simp
  have "(idx mod 8 + (7 - i mod 8) = 7) = (i mod 8 = idx mod 8)"
    using mod_less_divisor [of 8 i] by arith
  also have "\<dots> = (i = idx)"
    using True by (metis div_mult_mod_eq)
  finally have e: "(idx mod 8 + (7 - i mod 8) = 7) = (i = idx)" .
  have "mask_bit m i = (i < idx)" using inv i by simp
  then show ?thesis
    using True d e by (auto simp: mask_bit_def bit_or_iff bit_shifted_top)
next
  case False
  then have "i \<noteq> idx" by auto
  moreover have "mask_bit m i = (i < idx)" using inv i by simp
  ultimately show ?thesis
    using False by (auto simp: mask_bit_def)
qed

lemma prefix_mask_invariant:
  "length m = n \<Longrightarrow> idx \<le> p \<Longrightarrow> p \<le> 8 * n \<Longrightarrow> \<forall>j<8 * n. mask_bit m j = (j < idx) \<Longrightarrow>
   \<exists>m'. prefix_mask (int p) idx m = Some m' \<and> length m' = n \<and> (\<forall>j<8 * n. mask_bit m' j = (j < p))"
proof (induction "p - idx" arbitrary: idx m)
  case 0
  then have "idx = p" by simp
  with 0 show ?case by (subst prefix_mask.simps) simp
next
  case (Suc k)
  then have lt: "idx < p" by simp
  let ?m = "m[idx div 8 := (m ! (idx div 8)) OR drop_bit (idx mod 8) 0x80]"
  have b: "idx div 8 < length m" using lt Suc.prems by simp
  have "\<forall>j<8 * n. mask_bit ?m j = (j < Suc idx)"
    using mask_bit_step [of m n idx] Suc.prems lt by simp
  moreover have "k = p - Suc idx" using Suc.hyps by simp
  moreover have "length ?m = n" using Suc.prems by simp
  ultimately obtain m' where "prefix_mask (int p) (Suc idx) ?m = Some m'" "length m' = n"
    "\<forall>j<8 * n. mask_bit m' j = (j < p)"
    using Suc.hyps(1) [of "Suc idx" ?m] lt Suc.prems(3) by auto
  then show ?case using lt b by (subst prefix_mask.simps) simp
qed

lemma mask_bit_zero: "i < 8 * n \<Longrightarrow> mask_bit (replicate n 0) i = False"
  by (simp add: mask_bit_def)

lemma prefix_mask_in_range:
  assumes "p \<le> 8 * n"
  shows "\<exists>m. prefix_mask (int p) 0 (replicate n 0) = Some m \<and> prefix_of_ones n p m"
proof -
  obtain m' where "prefix_mask (int p) 0 (replicate n 0) = Some m'" "length m' = n"
    "\<forall>j<8 * n. mask_bit m' j = (j < p)"
    using prefix_mask_invariant [of "replicate n 0" n 0 p] assms by (auto simp: mask_bit_zero)
  then show ?thesis by (auto simp: prefix_of_ones_def list_all_iff)
qed

lemma prefix_mask_negative: "l \<le> 0 \<Longrightarrow> prefix_mask l 0 m = Some m"
  by (subst prefix_mask.simps) simp

lemma prefix_mask_overrun:
  "length m = n \<Longrightarrow> idx \<le> 8 * n \<Longrightarrow> int (8 * n) < l \<Longrightarrow> prefix_mask l idx m = None"
proof (induction "8 * n - idx" arbitrary: idx m)
  case 0
  then have "idx = 8 * n" by simp
  with 0 show ?case by (subst prefix_mask.simps) simp
next
  case (Suc k)
  then have lt: "idx < 8 * n" by simp
  let ?m = "m[idx div 8 := (m ! (idx div 8)) OR drop_bit (idx mod 8) 0x80]"
  have "prefix_mask l (Suc idx) ?m = None"
    using Suc.hyps(1) [of "Suc idx" ?m] Suc.hyps(2) Suc.prems lt by simp
  then show ?case using lt Suc.prems by (subst prefix_mask.simps) simp
qed

section \<open>Properties of the library functions\<close>

lemma Split_not_Nil: "Split s sep \<noteq> []"
  by (induction s) auto

lemma Split_no_sep: "sep \<notin> set s \<Longrightarrow> Split s sep = [s]"
  by (induction s) auto

lemma Split_append: "sep \<notin> set a \<Longrightarrow> Split (a @ sep # b) sep = a # Split b sep"
  by (induction a) auto

lemma length_Split: "length (Split s sep) = Suc (count_list s sep)"
proof (induction s)
  case Nil
  then show ?case by simp
next
  case (Cons c s)
  then show ?case using Split_not_Nil [of s sep] by (cases "Split s sep") auto
qed

lemma fromHexChar_slash: "fromHexChar (CHR ''/'') = None"
  by (simp add: fromHexChar_def)

lemma hex_no_slash: "hex_DecodeString s = Inr bs \<Longrightarrow> CHR ''/'' \<notin> set s"
proof (induction s arbitrary: bs rule: hex_DecodeString.induct)
  case 1
  then show ?case by simp
next
  case (2 p)
  then show ?case by (simp split: option.splits)
next
  case (3 p q rest)
  then show ?case
    by (auto simp: fromHexChar_slash split: option.splits sum.splits)
qed

lemma isDigit_slash: "\<not> isDigit (CHR ''/'')"
  by (simp add: isDigit_def)

lemma ParseUint_loop_digits: "ParseUint_loop n s = Inr v \<Longrightarrow> list_all isDigit s"
  by (induction s arbitrary: n) (auto split: if_splits)

lemma Atoi_no_slash: "Atoi s = Inr l \<Longrightarrow> CHR ''/'' \<notin> set s"
proof (cases s)
  case Nil
  then show ?thesis by simp
next
  case (Cons c cs)
  assume a: "Atoi s = Inr l"
  let ?ds = "if c = CHR ''-'' \<or> c = CHR ''+'' then cs else s"
  obtain un where "ParseUint_loop 0 ?ds = Inr un"
    using a Cons by (auto simp: Atoi_def Let_def split: if_splits sum.splits)
  then have d: "list_all isDigit ?ds"
    by (rule ParseUint_loop_digits)
  then have "CHR ''/'' \<notin> set ?ds"
    using isDigit_slash by (auto simp: list_all_iff)
  then show ?thesis using Cons by (auto split: if_splits)
qed

lemma Split_address:
  "hex_DecodeString enc = Inr dest \<Longrightarrow> CHR ''/'' \<notin> set bits \<Longrightarrow>
   Split (enc @ ''/'' @ bits) (CHR ''/'') = [enc, bits]"
  using hex_no_slash [of enc dest] by (simp add: Split_append Split_no_sep)

lemma bit_byte_ones: "k < 8 \<Longrightarrow> bit (0xFF :: byte) k"
proof -
  have "(0xFF :: byte) = - 1" by simp
  then show "k < 8 \<Longrightarrow> bit (0xFF :: byte) k" by (simp only: bit_minus_1_iff) simp
qed

lemma mask_bit_ones:
  assumes "i < 8 * n"
  shows "mask_bit (replicate n 0xFF) i"
proof -
  have "i div 8 < n" using assms by simp
  then have "replicate n (0xFF :: byte) ! (i div 8) = 0xFF" by (simp only: nth_replicate)
  moreover have "bit (0xFF :: byte) (7 - i mod 8)" by (rule bit_byte_ones) simp
  ultimately show ?thesis by (simp only: mask_bit_def)
qed

lemma all_ones_prefix: "prefix_of_ones n (8 * n) (all_ones n)"
  using mask_bit_ones [of _ n] by (simp add: prefix_of_ones_def all_ones_def list_all_iff)

lemma copy_array_exact: "length src = n \<Longrightarrow> copy_array n src = src"
  by (simp add: copy_array_def)

section \<open>Properties of a dial\<close>

lemma lookups_DialByNodeIDandMask:
  "lookups (snd (DialByNodeIDandMask d ctx nodeID nodeMask)) = 1"
  by (simp add: DialByNodeIDandMask_def lookups_def Let_def
      split: option.splits select_case.splits)

lemma Done_handshake_context: "\<exists>t. Done (handshake_context ctx now) = Some t"
  by (simp add: Done_def handshake_context_def WithTimeout_def Background_def
      split: option.splits)

lemma DialByPublicKey_eq:
  "DialByPublicKey d ctx pubKey =
     DialByNodeIDandMask d ctx (GetNodeID d pubKey) (all_ones (NodeIDLen d))"
  by (simp add: DialByPublicKey_def fill_mask_zero)

lemma trace_DialByNodeIDandMask_hd:
  "NewConn nodeID nodeMask \<in> set (snd (DialByNodeIDandMask d ctx nodeID nodeMask))"
  by (simp add: DialByNodeIDandMask_def Let_def split: option.splits select_case.splits)

lemma waits_DialByNodeIDandMask:
  "waits (snd (DialByNodeIDandMask d ctx nodeID nodeMask)) =
     (case search d nodeID nodeMask of
        Some err \<Rightarrow> []
      | None \<Rightarrow> [handshake_context ctx (endSearch d nodeID nodeMask)])"
  by (simp add: DialByNodeIDandMask_def Let_def split: option.splits select_case.splits)

lemma DialContext_cases:
  "snd (DialContext d ctx network address) = []
   \<or> (\<exists>i m. DialContext d ctx network address = DialByNodeIDandMask d ctx i m)"
  by (auto simp: DialContext_def DialByPublicKey_def Let_def split: sum.splits option.splits)

lemma deadline_handshake_context:
  "deadline (handshake_context ctx now) = Some (spec_effective_deadline ctx now)"
  by (auto simp: handshake_context_def WithTimeout_def Background_def
      spec_effective_deadline_def split: option.splits)

lemma cancelled_handshake_context:
  "cancelled (handshake_context ctx now) = caller_cancel ctx"
  by (auto simp: handshake_context_def WithTimeout_def Background_def caller_cancel_def
      split: option.splits)

lemma Done_handshake_context_eq:
  "Done (handshake_context ctx now) =
     (case caller_cancel ctx of
        None \<Rightarrow> Some (spec_effective_deadline ctx now)
      | Some k \<Rightarrow> Some (min (spec_effective_deadline ctx now) k))"
  by (simp add: Done_def deadline_handshake_context cancelled_handshake_context
      split: option.splits)

lemma dial_times_out:
  assumes "search d nodeID nodeMask = None"
    and "Done (handshake_context ctx (endSearch d nodeID nodeMask)) = Some t"
    and "\<not> ready (session_init d nodeID nodeMask) (max (endSearch d nodeID nodeMask) t)"
  shows "fst (DialByNodeIDandMask d ctx nodeID nodeMask) = Fail SessionHandshakeTimeout"
  using assms
  by (cases "session_init d nodeID nodeMask")
    (auto simp: DialByNodeIDandMask_def Let_def select_init_done_def ready_def)

lemma dial_returns:
  assumes "search d nodeID nodeMask = None"
    and "session_init d nodeID nodeMask = Some h"
    and "Done (handshake_context ctx (endSearch d nodeID nodeMask)) = Some t"
    and "max (endSearch d nodeID nodeMask) h < t"
  shows "fst (DialByNodeIDandMask d ctx nodeID nodeMask) = Return (Conn nodeID nodeMask)"
  using assms
  by (auto simp: DialByNodeIDandMask_def Let_def select_init_done_def ready_def)

lemma ready_mono: "ready ch a \<Longrightarrow> a \<le> b \<Longrightarrow> ready ch b"
  by (auto simp: ready_def split: option.splits)

lemma dial_startDial:
  "fst (DialByNodeIDandMask (d\<lparr>startDial := s\<rparr>) ctx nodeID nodeMask) =
     fst (DialByNodeIDandMask d ctx nodeID nodeMask)"
  by (simp add: DialByNodeIDandMask_def Let_def split: option.splits select_case.splits)

lemma NewConn_DialByNodeIDandMask:
  "NewConn i m \<in> set (snd (DialByNodeIDandMask d ctx nodeID nodeMask)) \<Longrightarrow>
   i = nodeID \<and> m = nodeMask"
  by (auto simp: DialByNodeIDandMask_def Let_def split: option.splits select_case.splits)

lemma dial_search_fails:
  "search d nodeID nodeMask = Some cause \<Longrightarrow>
   fst (DialByNodeIDandMask d ctx nodeID nodeMask) = Fail (SearchError cause)"
  by (simp add: DialByNodeIDandMask_def)

lemma DialContext_prefix_negative:
  assumes "hex_DecodeString enc = Inr dest" and "Atoi bits = Inr l" and "l < 0"
  shows "DialContext d ctx ''nodeid'' (enc @ ''/'' @ bits) =
           DialByNodeIDandMask d ctx (copy_array (NodeIDLen d) dest)
             (replicate (NodeIDLen d) 0)"
proof -
  have "Split (enc @ ''/'' @ bits) (CHR ''/'') = [enc, bits]"
    using Split_address [OF assms(1)] Atoi_no_slash [OF assms(2)] .
  then show ?thesis
    using assms by (simp add: DialContext_def prefix_mask_negative)
qed

lemma DialContext_prefix_overrun:
  assumes "hex_DecodeString enc = Inr dest" and "Atoi bits = Inr l"
    and "int (8 * NodeIDLen d) < l"
  shows "DialContext d ctx ''nodeid'' (enc @ ''/'' @ bits) = (Panic, [])"
proof -
  have "Split (enc @ ''/'' @ bits) (CHR ''/'') = [enc, bits]"
    using Split_address [OF assms(1)] Atoi_no_slash [OF assms(2)] .
  moreover have "prefix_mask l 0 (replicate (NodeIDLen d) 0) = None"
    using prefix_mask_overrun [of "replicate (NodeIDLen d) 0" "NodeIDLen d" 0 l] assms(3)
    by simp
  ultimately show ?thesis
    using assms by (simp add: DialContext_def)
qed

section \<open>The claims\<close>

subsection \<open>The effective deadline\<close>

text \<open>
  Claim C1. For every dial of a located target (the lookup returned no error) the
  handshake is awaited once, on a context whose deadline is the effective deadline of
  the specification: the completion time of the lookup plus six seconds when the
  caller gave no context or a context without deadline; the earlier of the caller's
  deadline and the completion time of the lookup plus six seconds otherwise. This
  deadline decides the dial. When the handshake-complete signal has not fired by the
  later of the start of the wait and the effective deadline, the dial fails with the
  handshake timeout; so it does when the signal has not fired six seconds after the
  lookup completed, and when it has not fired by the later of the start of the wait
  and the deadline of the caller: both limits are honoured. When the signal fires
  before the effective deadline, the wait began before the effective deadline and the
  caller has not cancelled by then, the Channel is returned. The instant at which the
  dial started plays no part, neither in the context awaited nor in the outcome.
\<close>

theorem effective_deadline:
  assumes "search d nodeID nodeMask = None"
  shows "map deadline (waits (snd (DialByNodeIDandMask d ctx nodeID nodeMask))) =
           [Some (case ctx of
                    None \<Rightarrow> endSearch d nodeID nodeMask + 6 * Second
                  | Some c \<Rightarrow>
                      (case deadline c of
                         None \<Rightarrow> endSearch d nodeID nodeMask + 6 * Second
                       | Some t \<Rightarrow> min t (endSearch d nodeID nodeMask + 6 * Second)))]
       \<and> waits (snd (DialByNodeIDandMask (d\<lparr>startDial := s\<rparr>) ctx nodeID nodeMask)) =
           waits (snd (DialByNodeIDandMask d ctx nodeID nodeMask))
       \<and> fst (DialByNodeIDandMask (d\<lparr>startDial := s\<rparr>) ctx nodeID nodeMask) =
           fst (DialByNodeIDandMask d ctx nodeID nodeMask)
       \<and> (\<not> ready (session_init d nodeID nodeMask)
              (max (endSearch d nodeID nodeMask)
                 (spec_effective_deadline ctx (endSearch d nodeID nodeMask))) \<longrightarrow>
            fst (DialByNodeIDandMask d ctx nodeID nodeMask) = Fail SessionHandshakeTimeout)
       \<and> (\<not> ready (session_init d nodeID nodeMask)
              (endSearch d nodeID nodeMask + 6 * Second) \<longrightarrow>
            fst (DialByNodeIDandMask d ctx nodeID nodeMask) = Fail SessionHandshakeTimeout)
       \<and> (\<forall>c t. ctx = Some c \<and> deadline c = Some t
              \<and> \<not> ready (session_init d nodeID nodeMask)
                    (max (endSearch d nodeID nodeMask) t) \<longrightarrow>
            fst (DialByNodeIDandMask d ctx nodeID nodeMask) = Fail SessionHandshakeTimeout)
       \<and> (\<forall>h. session_init d nodeID nodeMask = Some h
              \<and> max (endSearch d nodeID nodeMask) h <
                    spec_effective_deadline ctx (endSearch d nodeID nodeMask)
              \<and> \<not> ready (caller_cancel ctx) (max (endSearch d nodeID nodeMask) h) \<longrightarrow>
            fst (DialByNodeIDandMask d ctx nodeID nodeMask) = Return (Conn nodeID nodeMask))"
proof -
  let ?e = "endSearch d nodeID nodeMask"
  let ?E = "spec_effective_deadline ctx ?e"
  let ?init = "session_init d nodeID nodeMask"
  let ?out = "fst (DialByNodeIDandMask d ctx nodeID nodeMask)"
  obtain t where t: "Done (handshake_context ctx ?e) = Some t"
    using Done_handshake_context by blast
  have tE: "t \<le> ?E"
    using t by (auto simp: Done_handshake_context_eq split: option.splits)
  have six: "?E \<le> ?e + 6 * Second"
    by (auto simp: spec_effective_deadline_def split: option.splits)
  have pos: "?e \<le> ?e + 6 * Second"
    by (simp add: Second_def)
  have late: "?out = Fail SessionHandshakeTimeout" if "\<not> ready ?init x" and "max ?e t \<le> x" for x
  proof -
    have "\<not> ready ?init (max ?e t)"
      using that ready_mono by blast
    then show ?thesis
      using dial_times_out [OF assms t] by simp
  qed
  have c1: "map deadline (waits (snd (DialByNodeIDandMask d ctx nodeID nodeMask))) =
           [Some (case ctx of
                    None \<Rightarrow> ?e + 6 * Second
                  | Some c \<Rightarrow>
                      (case deadline c of
                         None \<Rightarrow> ?e + 6 * Second
                       | Some t \<Rightarrow> min t (?e + 6 * Second)))]"
    using assms
    by (simp add: waits_DialByNodeIDandMask deadline_handshake_context
        spec_effective_deadline_def)
  have c2: "waits (snd (DialByNodeIDandMask (d\<lparr>startDial := s\<rparr>) ctx nodeID nodeMask)) =
           waits (snd (DialByNodeIDandMask d ctx nodeID nodeMask))"
    by (simp add: waits_DialByNodeIDandMask split: option.splits)
  have c3: "fst (DialByNodeIDandMask (d\<lparr>startDial := s\<rparr>) ctx nodeID nodeMask) = ?out"
    by (rule dial_startDial)
  have c4: "\<not> ready ?init (max ?e ?E) \<longrightarrow> ?out = Fail SessionHandshakeTimeout"
    using late [of "max ?e ?E"] tE by auto
  have c5: "\<not> ready ?init (?e + 6 * Second) \<longrightarrow> ?out = Fail SessionHandshakeTimeout"
    using late [of "?e + 6 * Second"] tE six pos by auto
  have c6: "\<forall>c u. ctx = Some c \<and> deadline c = Some u \<and> \<not> ready ?init (max ?e u) \<longrightarrow>
      ?out = Fail SessionHandshakeTimeout"
  proof (intro allI impI)
    fix c u
    assume a: "ctx = Some c \<and> deadline c = Some u \<and> \<not> ready ?init (max ?e u)"
    then have "?E \<le> u"
      by (simp add: spec_effective_deadline_def)
    then show "?out = Fail SessionHandshakeTimeout"
      using late [of "max ?e u"] a tE by auto
  qed
  have c7: "\<forall>h. ?init = Some h \<and> max ?e h < ?E \<and> \<not> ready (caller_cancel ctx) (max ?e h) \<longrightarrow>
      ?out = Return (Conn nodeID nodeMask)"
  proof (intro allI impI)
    fix h
    assume a: "?init = Some h \<and> max ?e h < ?E \<and> \<not> ready (caller_cancel ctx) (max ?e h)"
    then have "max ?e h < t"
      using t by (auto simp: Done_handshake_context_eq ready_def split: option.splits)
    then show "?out = Return (Conn nodeID nodeMask)"
      using dial_returns [OF assms _ t] a by blast
  qed
  show ?thesis
    using c1 c2 c3 c4 c5 c6 c7 by blast
qed

theorem effective_deadline_witness:
  "search example_dialer example_nodeID example_nodeMask = None
   \<and> search silent_dialer example_nodeID example_nodeMask = None
   \<and> map deadline (waits (snd (DialByNodeIDandMask example_dialer None
        example_nodeID example_nodeMask))) = [Some 6100000000]
   \<and> map deadline (waits (snd (DialByNodeIDandMask example_dialer
        (Some \<lparr>deadline = Some 2000000000, cancelled = None\<rparr>)
        example_nodeID example_nodeMask))) = [Some 2000000000]
   \<and> map deadline (waits (snd (DialByNodeIDandMask example_dialer
        (Some \<lparr>deadline = Some 9000000000, cancelled = None\<rparr>)
        example_nodeID example_nodeMask))) = [Some 6100000000]
   \<and> fst (DialByNodeIDandMask silent_dialer None example_nodeID example_nodeMask) =
       Fail SessionHandshakeTimeout
   \<and> fst (DialByNodeIDandMask example_dialer
        (Some \<lparr>deadline = Some 120000000, cancelled = None\<rparr>)
        example_nodeID example_nodeMask) = Fail SessionHandshakeTimeout
   \<and> fst (DialByNodeIDandMask example_dialer
        (Some \<lparr>deadline = Some 2000000000, cancelled = None\<rparr>)
        example_nodeID example_nodeMask) = Return (Conn example_nodeID example_nodeMask)"
proof -
  let ?near = "Some \<lparr>deadline = Some 120000000, cancelled = None\<rparr>"
  let ?two = "Some \<lparr>deadline = Some 2000000000, cancelled = None\<rparr>"
  let ?nine = "Some \<lparr>deadline = Some 9000000000, cancelled = None\<rparr>"
  have h: "search example_dialer example_nodeID example_nodeMask = None"
    by (simp add: example_dialer_def)
  have h': "search silent_dialer example_nodeID example_nodeMask = None"
    by (simp add: silent_dialer_def example_dialer_def)
  have never: "\<not> ready (session_init silent_dialer example_nodeID example_nodeMask)
      (endSearch silent_dialer example_nodeID example_nodeMask + 6 * Second)"
    by (simp add: silent_dialer_def example_dialer_def ready_def)
  have tooLate: "\<not> ready (session_init example_dialer example_nodeID example_nodeMask)
      (max (endSearch example_dialer example_nodeID example_nodeMask) 120000000)"
    by (simp add: example_dialer_def ready_def)
  have inTime: "session_init example_dialer example_nodeID example_nodeMask = Some 150000000
      \<and> max (endSearch example_dialer example_nodeID example_nodeMask) 150000000 <
          spec_effective_deadline ?two (endSearch example_dialer example_nodeID example_nodeMask)
      \<and> \<not> ready (caller_cancel ?two)
            (max (endSearch example_dialer example_nodeID example_nodeMask) 150000000)"
    by (simp add: example_dialer_def spec_effective_deadline_def caller_cancel_def ready_def
        Second_def)
  have a: "map deadline (waits (snd (DialByNodeIDandMask example_dialer None
        example_nodeID example_nodeMask))) = [Some 6100000000]"
    using effective_deadline [OF h, of None 0] by (simp add: example_dialer_def Second_def)
  have b: "map deadline (waits (snd (DialByNodeIDandMask example_dialer ?two
        example_nodeID example_nodeMask))) = [Some 2000000000]"
    using effective_deadline [OF h, of ?two 0] by (simp add: example_dialer_def Second_def)
  have c: "map deadline (waits (snd (DialByNodeIDandMask example_dialer ?nine
        example_nodeID example_nodeMask))) = [Some 6100000000]"
    using effective_deadline [OF h, of ?nine 0] by (simp add: example_dialer_def Second_def)
  have e: "fst (DialByNodeIDandMask silent_dialer None example_nodeID example_nodeMask) =
       Fail SessionHandshakeTimeout"
    using effective_deadline [OF h', of None 0] never by blast
  have f: "fst (DialByNodeIDandMask example_dialer ?near example_nodeID example_nodeMask) =
       Fail SessionHandshakeTimeout"
    using effective_deadline [OF h, of ?near 0] tooLate by simp
  have g: "fst (DialByNodeIDandMask example_dialer ?two example_nodeID example_nodeMask) =
       Return (Conn example_nodeID example_nodeMask)"
    using effective_deadline [OF h, of ?two 0] inTime by blast
  show ?thesis
    using h h' a b c e f g by blast
qed

subsection \<open>The outcomes of a dial\<close>

text \<open>
  Claim C2, as the specification states it, fails where both events of the race have
  happened when the wait begins: the lookup of \<open>late_dialer\<close> returns after three
  seconds, the deadline of the caller elapsed after one second and the handshake
  completed after two, so the deadline elapsed before the signal; the select statement
  finds both channels closed, and where it takes the case of the signal the dial
  returns the Channel, unclosed, instead of a handshake timeout.
\<close>

theorem deadline_before_signal_counterexample:
  "search late_dialer example_nodeID example_nodeMask = None
   \<and> Done (handshake_context (Some one_second_context)
        (endSearch late_dialer example_nodeID example_nodeMask)) = Some (1 * Second)
   \<and> session_init late_dialer example_nodeID example_nodeMask = Some (2 * Second)
   \<and> 1 * Second < 2 * Second
   \<and> fst (DialByNodeIDandMask late_dialer (Some one_second_context)
        example_nodeID example_nodeMask) =
       Return (Conn example_nodeID example_nodeMask)
   \<and> Close \<notin> set (snd (DialByNodeIDandMask late_dialer (Some one_second_context)
        example_nodeID example_nodeMask))"
  by (simp add: DialByNodeIDandMask_def late_dialer_def example_dialer_def
      one_second_context_def handshake_context_def WithTimeout_def Done_def
      select_init_done_def ready_def Second_def Let_def)

text \<open>
  Claim C2, amended. Every dial attempt (whose lookup returns) ends in exactly one
  outcome, which is neither a panic nor an endless wait, and every failing outcome
  closes the pending Channel before the error is returned. A failed lookup closes the
  Channel and returns the search error. When the handshake-complete signal has not
  fired by the later of the start of the wait and the instant the context is done (its
  effective deadline elapsed or the caller cancelled), the Channel is closed and the
  handshake timeout is returned. When the signal fires, or has fired, strictly before
  the context is done and the wait has begun before the context is done, the Channel
  is returned. A Channel is returned only if the signal has fired by the later of the
  start of the wait and the instant the context is done, and it is never closed. An
  error is a search failure or a handshake timeout.
\<close>

theorem dial_outcomes:
  assumes "DialByNodeIDandMask d ctx nodeID nodeMask = (out, tr)"
  shows "out \<noteq> Blocked \<and> out \<noteq> Panic
       \<and> (\<forall>cause. search d nodeID nodeMask = Some cause \<longrightarrow>
            out = Fail (SearchError cause) \<and> Close \<in> set tr)
       \<and> (\<forall>t. search d nodeID nodeMask = None
              \<and> Done (handshake_context ctx (endSearch d nodeID nodeMask)) = Some t
              \<and> \<not> ready (session_init d nodeID nodeMask) (max (endSearch d nodeID nodeMask) t) \<longrightarrow>
            out = Fail SessionHandshakeTimeout \<and> Close \<in> set tr)
       \<and> (\<forall>h t. search d nodeID nodeMask = None
              \<and> session_init d nodeID nodeMask = Some h
              \<and> Done (handshake_context ctx (endSearch d nodeID nodeMask)) = Some t
              \<and> max (endSearch d nodeID nodeMask) h < t \<longrightarrow>
            out = Return (Conn nodeID nodeMask))
       \<and> (\<forall>c. out = Return c \<longrightarrow>
            c = Conn nodeID nodeMask \<and> Close \<notin> set tr
            \<and> search d nodeID nodeMask = None
            \<and> (\<exists>t. Done (handshake_context ctx (endSearch d nodeID nodeMask)) = Some t
                  \<and> ready (session_init d nodeID nodeMask) (max (endSearch d nodeID nodeMask) t)))
       \<and> (\<forall>err. out = Fail err \<longrightarrow>
            Close \<in> set tr \<and> (kind err = SearchFailed \<or> kind err = HandshakeTimedOut))"
proof (cases "search d nodeID nodeMask")
  case (Some cause)
  then show ?thesis
    using assms by (auto simp: DialByNodeIDandMask_def)
next
  case None
  obtain t where t: "Done (handshake_context ctx (endSearch d nodeID nodeMask)) = Some t"
    using Done_handshake_context by blast
  show ?thesis
  proof (cases "session_init d nodeID nodeMask")
    case n: None
    then show ?thesis
      using assms None t
      by (auto simp: DialByNodeIDandMask_def Let_def select_init_done_def ready_def
          split: if_splits)
  next
    case (Some h)
    then show ?thesis
      using assms None t
      by (auto simp: DialByNodeIDandMask_def Let_def select_init_done_def ready_def
          split: if_splits select_case.splits)
  qed
qed

theorem dial_outcomes_witness:
  "DialByNodeIDandMask lost_dialer None example_nodeID example_nodeMask =
     (Fail (SearchError ''search failed''), [NewConn example_nodeID example_nodeMask, Search, Close])
   \<and> search lost_dialer example_nodeID example_nodeMask = Some ''search failed''
   \<and> fst (DialByNodeIDandMask silent_dialer None example_nodeID example_nodeMask) = Fail SessionHandshakeTimeout
   \<and> Close \<in> set (snd (DialByNodeIDandMask silent_dialer None example_nodeID example_nodeMask))
   \<and> search silent_dialer example_nodeID example_nodeMask = None
   \<and> Done (handshake_context None (endSearch silent_dialer example_nodeID example_nodeMask)) = Some 6100000000
   \<and> \<not> ready (session_init silent_dialer example_nodeID example_nodeMask)
          (max (endSearch silent_dialer example_nodeID example_nodeMask) 6100000000)
   \<and> fst (DialByNodeIDandMask example_dialer None example_nodeID example_nodeMask) = Return (Conn example_nodeID example_nodeMask)
   \<and> Close \<notin> set (snd (DialByNodeIDandMask example_dialer None example_nodeID example_nodeMask))
   \<and> ready (session_init example_dialer example_nodeID example_nodeMask)
        (max (endSearch example_dialer example_nodeID example_nodeMask) 6100000000)"
proof -
  have a: "DialByNodeIDandMask lost_dialer None example_nodeID example_nodeMask =
     (Fail (SearchError ''search failed''), [NewConn example_nodeID example_nodeMask, Search, Close])"
    by (simp add: DialByNodeIDandMask_def lost_dialer_def example_dialer_def)
  have b: "DialByNodeIDandMask silent_dialer None example_nodeID example_nodeMask =
     (fst (DialByNodeIDandMask silent_dialer None example_nodeID example_nodeMask),
      snd (DialByNodeIDandMask silent_dialer None example_nodeID example_nodeMask))"
    by simp
  have c: "DialByNodeIDandMask example_dialer None example_nodeID example_nodeMask =
     (fst (DialByNodeIDandMask example_dialer None example_nodeID example_nodeMask),
      snd (DialByNodeIDandMask example_dialer None example_nodeID example_nodeMask))"
    by simp
  have s: "search lost_dialer example_nodeID example_nodeMask = Some ''search failed''"
    "search silent_dialer example_nodeID example_nodeMask = None"
    "Done (handshake_context None (endSearch silent_dialer example_nodeID example_nodeMask)) = Some 6100000000"
    "\<not> ready (session_init silent_dialer example_nodeID example_nodeMask)
          (max (endSearch silent_dialer example_nodeID example_nodeMask) 6100000000)"
    "ready (session_init example_dialer example_nodeID example_nodeMask)
        (max (endSearch example_dialer example_nodeID example_nodeMask) 6100000000)"
    by (simp_all add: lost_dialer_def silent_dialer_def example_dialer_def ready_def Done_def
        handshake_context_def WithTimeout_def Background_def Second_def)
  have r: "fst (DialByNodeIDandMask example_dialer None example_nodeID example_nodeMask) = Return (Conn example_nodeID example_nodeMask)"
    by (simp add: DialByNodeIDandMask_def example_dialer_def Let_def select_init_done_def
        ready_def Done_def handshake_context_def WithTimeout_def Background_def Second_def)
  show ?thesis
    using a s r dial_outcomes [OF a] dial_outcomes [OF b] dial_outcomes [OF c]
    by blast
qed

subsection \<open>Identifier-scheme addresses\<close>

text \<open>
  Claim C3. For an identifier-scheme address \<open>enc/bits\<close> whose identifier decodes and
  whose prefix count \<open>p\<close> is between 0 and the number of bits of an identifier, the
  target is dialled with a mask whose first \<open>p\<close> bits are set and whose other bits are
  clear; an address without the suffix is dialled with the all-ones mask, all of whose
  bits are set.
\<close>

theorem prefix_mask_of_address:
  assumes "hex_DecodeString enc = Inr dest"
  shows "(\<forall>bits p. Atoi bits = Inr (int p) \<and> p \<le> 8 * NodeIDLen d \<longrightarrow>
            (\<exists>m. prefix_of_ones (NodeIDLen d) p m
                \<and> DialContext d ctx ''nodeid'' (enc @ ''/'' @ bits) =
                    DialByNodeIDandMask d ctx (copy_array (NodeIDLen d) dest) m))
       \<and> DialContext d ctx ''nodeid'' enc =
           DialByNodeIDandMask d ctx (copy_array (NodeIDLen d) dest) (all_ones (NodeIDLen d))
       \<and> prefix_of_ones (NodeIDLen d) (8 * NodeIDLen d) (all_ones (NodeIDLen d))"
proof (intro conjI allI impI)
  fix bits p
  assume a: "Atoi bits = Inr (int p) \<and> p \<le> 8 * NodeIDLen d"
  then have t: "Split (enc @ ''/'' @ bits) (CHR ''/'') = [enc, bits]"
    using Split_address [OF assms] Atoi_no_slash by blast
  obtain m where m: "prefix_mask (int p) 0 (replicate (NodeIDLen d) 0) = Some m"
    "prefix_of_ones (NodeIDLen d) p m"
    using prefix_mask_in_range a by blast
  have "DialContext d ctx ''nodeid'' (enc @ ''/'' @ bits) =
          DialByNodeIDandMask d ctx (copy_array (NodeIDLen d) dest) m"
    using a assms m(1) unfolding DialContext_def t by simp
  with m(2) show "\<exists>m. prefix_of_ones (NodeIDLen d) p m
      \<and> DialContext d ctx ''nodeid'' (enc @ ''/'' @ bits) =
          DialByNodeIDandMask d ctx (copy_array (NodeIDLen d) dest) m"
    by blast
next
  have "Split enc (CHR ''/'') = [enc]"
    using hex_no_slash [OF assms] by (simp add: Split_no_sep)
  then show "DialContext d ctx ''nodeid'' enc =
      DialByNodeIDandMask d ctx (copy_array (NodeIDLen d) dest) (all_ones (NodeIDLen d))"
    using assms by (simp add: DialContext_def fill_mask_zero)
next
  show "prefix_of_ones (NodeIDLen d) (8 * NodeIDLen d) (all_ones (NodeIDLen d))"
    by (rule all_ones_prefix)
qed

theorem prefix_mask_of_address_witness:
  "hex_DecodeString ''abcd'' = Inr [0xAB, 0xCD]
   \<and> Atoi ''12'' = Inr (int 12) \<and> 12 \<le> 8 * NodeIDLen example_dialer
   \<and> fst (DialContext example_dialer None ''nodeid'' ''abcd/12'') =
       Return (Conn (0xAB # 0xCD # replicate 62 0) (0xFF # 0xF0 # replicate 62 0))
   \<and> prefix_of_ones 64 12 (0xFF # 0xF0 # replicate 62 0)
   \<and> fst (DialContext example_dialer None ''nodeid'' ''abcd'') =
       Return (Conn (0xAB # 0xCD # replicate 62 0) (replicate 64 0xFF))"
proof -
  have h: "hex_DecodeString ''abcd'' = Inr [0xAB, 0xCD]"
    by (simp add: fromHexChar_def)
  have a: "Atoi ''12'' = Inr (int 12)" by code_simp
  have n: "12 \<le> 8 * NodeIDLen example_dialer" by (simp add: example_dialer_def)
  have r: "fst (DialByNodeIDandMask example_dialer None i m) = Return (Conn i m)" for i m
    by (simp add: DialByNodeIDandMask_def example_dialer_def Let_def select_init_done_def
        ready_def Done_def handshake_context_def WithTimeout_def Background_def Second_def)
  have e: "fst (DialContext example_dialer None ''nodeid'' ''abcd/12'') =
       Return (Conn (0xAB # 0xCD # replicate 62 0) (0xFF # 0xF0 # replicate 62 0))"
    by code_simp
  have e': "fst (DialContext example_dialer None ''nodeid'' ''abcd'') =
       Return (Conn (0xAB # 0xCD # replicate 62 0) (replicate 64 0xFF))"
    by code_simp
  obtain m where "prefix_of_ones (NodeIDLen example_dialer) 12 m"
    "DialContext example_dialer None ''nodeid'' (''abcd'' @ ''/'' @ ''12'') =
       DialByNodeIDandMask example_dialer None (copy_array (NodeIDLen example_dialer) [0xAB, 0xCD]) m"
    using prefix_mask_of_address [OF h, of example_dialer None] a n by blast
  then have "prefix_of_ones 64 12 (0xFF # 0xF0 # replicate 62 0)"
    using e r by (simp add: example_dialer_def)
  then show ?thesis using h a n e e' by simp
qed


text \<open>
  Claim C4 asks that a prefix count out of range be rejected with \<open>InvalidAddress\<close>
  before any lookup. The identifier branch makes no check of the range. With the
  address \<^verbatim>\<open>abcd/513\<close> the loop that sets the bits of the mask runs past the
  64 bytes of the mask and the call ends in a runtime panic, not in an error. With the
  address \<^verbatim>\<open>abcd/-1\<close> the loop does not run, and the target is looked up with
  the all-zero mask.
\<close>

theorem prefix_count_is_not_checked:
  "Atoi ''513'' = Inr 513
   \<and> int (8 * NodeIDLen example_dialer) < 513
   \<and> DialContext example_dialer None ''nodeid'' ''abcd/513'' = (Panic, [])
   \<and> Atoi ''-1'' = Inr (- 1)
   \<and> fst (DialContext example_dialer None ''nodeid'' ''abcd/-1'') =
       Return (Conn (0xAB # 0xCD # replicate 62 0) (replicate 64 0))
   \<and> lookups (snd (DialContext example_dialer None ''nodeid'' ''abcd/-1'')) = 1"
proof -
  have h: "hex_DecodeString ''abcd'' = Inr [0xAB, 0xCD]" by (simp add: fromHexChar_def)
  have a: "Atoi ''513'' = Inr 513" by code_simp
  have n: "int (8 * NodeIDLen example_dialer) < 513"
    by (simp add: example_dialer_def)
  have "DialContext example_dialer None ''nodeid'' ''abcd/513'' = (Panic, [])"
    using DialContext_prefix_overrun [OF h a n, of None] by simp
  moreover note a n
  moreover have "Atoi ''-1'' = Inr (- 1)" by code_simp
  moreover have "fst (DialContext example_dialer None ''nodeid'' ''abcd/-1'') =
       Return (Conn (0xAB # 0xCD # replicate 62 0) (replicate 64 0))" by code_simp
  moreover have "lookups (snd (DialContext example_dialer None ''nodeid'' ''abcd/-1'')) = 1"
    by code_simp
  ultimately show ?thesis by blast
qed

text \<open>
  Claim C5 asks that an identifier of the wrong length be rejected with
  \<open>InvalidAddress\<close> before any lookup. The identifier branch does not check the
  length: the two decoded bytes of \<^verbatim>\<open>abcd\<close> are copied to the front of a zeroed
  identifier of 64 bytes and the lookup takes place, where the key branch rejects the
  same address for its length.
\<close>

theorem short_identifier_is_dialled:
  "hex_DecodeString ''abcd'' = Inr [0xAB, 0xCD]
   \<and> length [0xAB, 0xCD :: byte] \<noteq> NodeIDLen example_dialer
   \<and> fst (DialContext example_dialer None ''nodeid'' ''abcd'') =
       Return (Conn (0xAB # 0xCD # replicate 62 0) (replicate 64 0xFF))
   \<and> lookups (snd (DialContext example_dialer None ''nodeid'' ''abcd'')) = 1
   \<and> DialContext example_dialer None ''curve25519'' ''abcd'' = (Fail InvalidKeyLength, [])"
proof -
  have "hex_DecodeString ''abcd'' = Inr [0xAB, 0xCD]" by (simp add: fromHexChar_def)
  moreover have "length [0xAB, 0xCD :: byte] \<noteq> NodeIDLen example_dialer"
    by (simp add: example_dialer_def)
  moreover have "fst (DialContext example_dialer None ''nodeid'' ''abcd'') =
       Return (Conn (0xAB # 0xCD # replicate 62 0) (replicate 64 0xFF))" by code_simp
  moreover have "lookups (snd (DialContext example_dialer None ''nodeid'' ''abcd'')) = 1"
    by code_simp
  moreover have "DialContext example_dialer None ''curve25519'' ''abcd'' = (Fail InvalidKeyLength, [])"
    by code_simp
  ultimately show ?thesis by blast
qed


text \<open>
  Claim C9. An identifier-scheme address in which the number of separators \<open>/\<close> is
  not one is not rejected for it: the first token alone is decoded as the identifier
  (an address whose first token does not decode fails with the decoding error, as any
  address does), the mask is all-ones and the other tokens are ignored.
\<close>

theorem other_separator_counts:
  assumes "count_list address (CHR ''/'') \<noteq> 1"
  shows "DialContext d ctx ''nodeid'' address =
           (case hex_DecodeString (hd (Split address (CHR ''/''))) of
              Inl err \<Rightarrow> (Fail (HexError err), [])
            | Inr dest \<Rightarrow>
                DialByNodeIDandMask d ctx (copy_array (NodeIDLen d) dest)
                  (all_ones (NodeIDLen d)))"
proof -
  have "length (Split address (CHR ''/'')) \<noteq> 2"
    using assms by (simp add: length_Split)
  moreover have "Split address (CHR ''/'') ! 0 = hd (Split address (CHR ''/''))"
    using Split_not_Nil [of address "CHR ''/''"] by (simp add: hd_conv_nth)
  ultimately show ?thesis
    by (simp add: DialContext_def fill_mask_zero split: sum.splits)
qed

theorem other_separator_counts_witness:
  "count_list ''abcd/1/2'' (CHR ''/'') \<noteq> 1
   \<and> hd (Split ''abcd/1/2'' (CHR ''/'')) = ''abcd''
   \<and> DialContext example_dialer None ''nodeid'' ''abcd/1/2'' =
       DialByNodeIDandMask example_dialer None (copy_array 64 [0xAB, 0xCD]) (all_ones 64)"
proof -
  have c: "count_list ''abcd/1/2'' (CHR ''/'') \<noteq> 1" by simp
  have t: "hd (Split ''abcd/1/2'' (CHR ''/'')) = ''abcd''" by simp
  have h: "hex_DecodeString ''abcd'' = Inr [0xAB, 0xCD]" by (simp add: fromHexChar_def)
  have n: "NodeIDLen example_dialer = 64" by (simp add: example_dialer_def)
  have "DialContext example_dialer None ''nodeid'' ''abcd/1/2'' =
       DialByNodeIDandMask example_dialer None (copy_array 64 [0xAB, 0xCD]) (all_ones 64)"
    using other_separator_counts [OF c, of example_dialer None]
    by (simp only: t h n sum.case)
  then show ?thesis using c t by simp
qed

subsection \<open>Key-scheme addresses and other schemes\<close>

text \<open>
  Claim C6. For a key-scheme address (scheme \<^verbatim>\<open>curve25519\<close> or \<^verbatim>\<open>http\<close>): if the
  address does not decode, or decodes to a number of bytes that is not the length of a
  public key, the dial fails with an error of kind \<open>InvalidAddress\<close> and no lookup;
  otherwise the identifier derived from the decoded key by \<open>GetNodeID\<close> is dialled with
  the all-ones mask.
\<close>

theorem key_scheme:
  assumes "network = ''http'' \<or> network = ''curve25519''"
  shows "(\<forall>e. hex_DecodeString address = Inl e \<longrightarrow>
            DialContext d ctx network address = (Fail (HexError e), [])
            \<and> kind (HexError e) = InvalidAddress
            \<and> lookups (snd (DialContext d ctx network address)) = 0)
       \<and> (\<forall>dest. hex_DecodeString address = Inr dest \<and> length dest \<noteq> BoxPubKeyLen d \<longrightarrow>
            DialContext d ctx network address = (Fail InvalidKeyLength, [])
            \<and> kind InvalidKeyLength = InvalidAddress
            \<and> lookups (snd (DialContext d ctx network address)) = 0)
       \<and> (\<forall>dest. hex_DecodeString address = Inr dest \<and> length dest = BoxPubKeyLen d \<longrightarrow>
            DialContext d ctx network address =
              DialByNodeIDandMask d ctx (GetNodeID d dest) (all_ones (NodeIDLen d)))"
  using assms
  by (auto simp: DialContext_def lookups_def DialByPublicKey_eq copy_array_exact)

theorem key_scheme_witness:
  "hex_DecodeString ''zz'' = Inl (InvalidByteError (CHR ''z''))
   \<and> DialContext example_dialer None ''curve25519'' ''zz'' =
       (Fail (HexError (InvalidByteError (CHR ''z''))), [])
   \<and> hex_DecodeString ''abcd'' = Inr [0xAB, 0xCD]
   \<and> length [0xAB, 0xCD :: byte] \<noteq> BoxPubKeyLen example_dialer
   \<and> DialContext example_dialer None ''http'' ''abcd'' = (Fail InvalidKeyLength, [])
   \<and> hex_DecodeString (concat (replicate 32 ''07'')) = Inr (replicate 32 7)
   \<and> length (replicate 32 (7 :: byte)) = BoxPubKeyLen example_dialer
   \<and> DialContext example_dialer None ''curve25519'' (concat (replicate 32 ''07'')) =
       DialByNodeIDandMask example_dialer None (GetNodeID example_dialer (replicate 32 7))
         (all_ones (NodeIDLen example_dialer))"
proof -
  have h1: "hex_DecodeString ''zz'' = Inl (InvalidByteError (CHR ''z''))"
    by (simp add: fromHexChar_def)
  have h2: "hex_DecodeString ''abcd'' = Inr [0xAB, 0xCD]"
    by (simp add: fromHexChar_def)
  have h3: "hex_DecodeString (concat (replicate 32 ''07'')) = Inr (replicate 32 7)"
    by code_simp
  have l2: "length [0xAB, 0xCD :: byte] \<noteq> BoxPubKeyLen example_dialer"
    by (simp add: example_dialer_def)
  have l3: "length (replicate 32 (7 :: byte)) = BoxPubKeyLen example_dialer"
    by (simp add: example_dialer_def)
  have k1: "''curve25519'' = ''http'' \<or> ''curve25519'' = ''curve25519''" by simp
  have k2: "''http'' = ''http'' \<or> ''http'' = ''curve25519''" by simp
  show ?thesis
    using h1 h2 h3 l2 l3
      key_scheme [OF k1, of "''zz''" example_dialer None]
      key_scheme [OF k2, of "''abcd''" example_dialer None]
      key_scheme [OF k1, of "concat (replicate 32 ''07'')" example_dialer None]
    by blast
qed

text \<open>
  Claim C7. A scheme token that is neither a key-scheme token nor the identifier-scheme
  token fails with an error of kind \<open>UnsupportedScheme\<close>, and no lookup begins.
\<close>

theorem unsupported_scheme:
  assumes "network \<noteq> ''http''" and "network \<noteq> ''curve25519''" and "network \<noteq> ''nodeid''"
  shows "fst (DialContext d ctx network address) = Fail (UnexpectedAddressType network)
       \<and> kind (UnexpectedAddressType network) = UnsupportedScheme
       \<and> lookups (snd (DialContext d ctx network address)) = 0"
  using assms by (simp add: DialContext_def lookups_def)

theorem unsupported_scheme_witness:
  "''tcp'' \<noteq> ''http'' \<and> ''tcp'' \<noteq> ''curve25519'' \<and> ''tcp'' \<noteq> ''nodeid''
   \<and> fst (DialContext example_dialer None ''tcp'' ''abcd'') = Fail (UnexpectedAddressType ''tcp'')
   \<and> lookups (snd (DialContext example_dialer None ''tcp'' ''abcd'')) = 0"
proof -
  have h: "''tcp'' \<noteq> ''http''" "''tcp'' \<noteq> ''curve25519''" "''tcp'' \<noteq> ''nodeid''"
    by simp_all
  show ?thesis
    using h unsupported_scheme [OF h, of example_dialer None "''abcd''"] by simp
qed

subsection \<open>Compositions\<close>

text \<open>
  Claim C8. For every public key and context, dialling by public key gives what
  dialling by identifier and mask gives for the identifier derived from the key and the
  all-ones mask.
\<close>

theorem dial_by_public_key:
  "DialByPublicKey d ctx pubKey =
     DialByNodeIDandMask d ctx (GetNodeID d pubKey) (all_ones (NodeIDLen d))
   \<and> prefix_of_ones (NodeIDLen d) (8 * NodeIDLen d) (all_ones (NodeIDLen d))"
  by (simp add: DialByPublicKey_def fill_mask_zero all_ones_prefix)

theorem dial_by_public_key_witness:
  "DialByPublicKey example_dialer None (replicate 32 7) =
     DialByNodeIDandMask example_dialer None (replicate 64 7) (replicate 64 0xFF)"
proof -
  have "GetNodeID example_dialer (replicate 32 7) = replicate 64 7" by code_simp
  moreover have "all_ones (NodeIDLen example_dialer) = replicate 64 0xFF"
    by (simp add: all_ones_def example_dialer_def)
  ultimately show ?thesis
    using dial_by_public_key [of example_dialer None "replicate 32 7"] by simp
qed

text \<open>
  Claim C10. For every scheme token and address, \<open>Dial\<close> gives what \<open>DialContext\<close>
  gives with a nil context. A plain \<open>Dial\<close> either has no effect at all or is the dial
  of some target with the nil context; wherever it awaits a handshake, it does so
  without any cancellation by the caller and with the deadline six seconds after the
  lookup of the dialled target completed, and that deadline decides it: for the target
  it dials, a failed lookup returns the search error, a handshake-complete signal that
  has not fired six seconds after the lookup completed gives the handshake timeout, and
  a signal that fires before that instant gives the Channel.
\<close>

theorem dial_is_nil_context:
  "Dial d network address = DialContext d None network address
   \<and> (\<forall>c \<in> set (waits (snd (Dial d network address))).
        cancelled c = None
        \<and> (\<exists>i m. NewConn i m \<in> set (snd (Dial d network address))
                  \<and> deadline c = Some (endSearch d i m + 6 * Second)))
   \<and> (snd (Dial d network address) = []
        \<or> (\<exists>i m. Dial d network address = DialByNodeIDandMask d None i m))
   \<and> (\<forall>i m. NewConn i m \<in> set (snd (Dial d network address)) \<longrightarrow>
          (\<forall>cause. search d i m = Some cause \<longrightarrow>
             fst (Dial d network address) = Fail (SearchError cause))
        \<and> (search d i m = None
             \<and> \<not> ready (session_init d i m) (endSearch d i m + 6 * Second) \<longrightarrow>
             fst (Dial d network address) = Fail SessionHandshakeTimeout)
        \<and> (\<forall>h. search d i m = None \<and> session_init d i m = Some h
                 \<and> h < endSearch d i m + 6 * Second \<longrightarrow>
             fst (Dial d network address) = Return (Conn i m)))"
proof -
  let ?r = "DialContext d None network address"
  have w: "\<forall>c \<in> set (waits (snd ?r)).
        cancelled c = None
        \<and> (\<exists>i m. NewConn i m \<in> set (snd ?r)
                  \<and> deadline c = Some (endSearch d i m + 6 * Second))"
  proof
    fix c
    assume c: "c \<in> set (waits (snd ?r))"
    then have "snd ?r \<noteq> []" by auto
    then obtain i m where e: "?r = DialByNodeIDandMask d None i m"
      using DialContext_cases [of d None network address] by auto
    have "c = handshake_context None (endSearch d i m)"
      using c unfolding e waits_DialByNodeIDandMask by (auto split: option.splits)
    then have "cancelled c = None \<and> deadline c = Some (endSearch d i m + 6 * Second)"
      by (simp add: handshake_context_def WithTimeout_def Background_def)
    then show "cancelled c = None
        \<and> (\<exists>i m. NewConn i m \<in> set (snd ?r)
                  \<and> deadline c = Some (endSearch d i m + 6 * Second))"
      unfolding e using trace_DialByNodeIDandMask_hd [of i m d None] by blast
  qed
  have o: "(\<forall>cause. search d i m = Some cause \<longrightarrow> fst ?r = Fail (SearchError cause))
        \<and> (search d i m = None
             \<and> \<not> ready (session_init d i m) (endSearch d i m + 6 * Second) \<longrightarrow>
             fst ?r = Fail SessionHandshakeTimeout)
        \<and> (\<forall>h. search d i m = None \<and> session_init d i m = Some h
                 \<and> h < endSearch d i m + 6 * Second \<longrightarrow>
             fst ?r = Return (Conn i m))"
    if n: "NewConn i m \<in> set (snd ?r)" for i m
  proof -
    have "snd ?r \<noteq> []" using n by auto
    then obtain i' m' where e': "?r = DialByNodeIDandMask d None i' m'"
      using DialContext_cases [of d None network address] by auto
    then have "i = i' \<and> m = m'"
      using n NewConn_DialByNodeIDandMask [of i m d None i' m'] by simp
    then have e: "?r = DialByNodeIDandMask d None i m"
      using e' by simp
    let ?e = "endSearch d i m"
    have t: "Done (handshake_context None ?e) = Some (?e + 6 * Second)"
      by (simp add: Done_handshake_context_eq caller_cancel_def spec_effective_deadline_def)
    have m: "max ?e (?e + 6 * Second) = ?e + 6 * Second"
      by (simp add: Second_def)
    have a: "\<forall>cause. search d i m = Some cause \<longrightarrow> fst ?r = Fail (SearchError cause)"
      unfolding e using dial_search_fails by blast
    have b: "search d i m = None \<and> \<not> ready (session_init d i m) (?e + 6 * Second) \<longrightarrow>
        fst ?r = Fail SessionHandshakeTimeout"
      unfolding e using dial_times_out [of d i m None, OF _ t] m by simp
    have c: "\<forall>h. search d i m = None \<and> session_init d i m = Some h \<and> h < ?e + 6 * Second \<longrightarrow>
        fst ?r = Return (Conn i m)"
    proof (intro allI impI)
      fix h
      assume h: "search d i m = None \<and> session_init d i m = Some h \<and> h < ?e + 6 * Second"
      then have "max ?e h < ?e + 6 * Second"
        by (simp add: Second_def)
      then show "fst ?r = Return (Conn i m)"
        unfolding e using dial_returns [of d i m h None, OF _ _ t] h by simp
    qed
    show ?thesis using a b c by blast
  qed
  have k: "snd ?r = [] \<or> (\<exists>i m. ?r = DialByNodeIDandMask d None i m)"
    by (rule DialContext_cases)
  have o': "\<forall>i m. NewConn i m \<in> set (snd ?r) \<longrightarrow>
          (\<forall>cause. search d i m = Some cause \<longrightarrow> fst ?r = Fail (SearchError cause))
        \<and> (search d i m = None
             \<and> \<not> ready (session_init d i m) (endSearch d i m + 6 * Second) \<longrightarrow>
             fst ?r = Fail SessionHandshakeTimeout)
        \<and> (\<forall>h. search d i m = None \<and> session_init d i m = Some h
                 \<and> h < endSearch d i m + 6 * Second \<longrightarrow>
             fst ?r = Return (Conn i m))"
    using o by (intro allI impI)
  show ?thesis
    unfolding Dial_def by (intro conjI refl w k o')
qed

theorem dial_is_nil_context_witness:
  "Dial example_dialer ''nodeid'' ''abcd'' = DialContext example_dialer None ''nodeid'' ''abcd''
   \<and> map cancelled (waits (snd (Dial example_dialer ''nodeid'' ''abcd''))) = [None]
   \<and> map deadline (waits (snd (Dial example_dialer ''nodeid'' ''abcd''))) =
       [Some (endSearch example_dialer (copy_array 64 [0xAB, 0xCD]) (all_ones 64) + 6 * Second)]
   \<and> NewConn example_nodeID example_nodeMask \<in> set (snd (Dial silent_dialer ''nodeid'' ''abcd''))
   \<and> search silent_dialer example_nodeID example_nodeMask = None
   \<and> \<not> ready (session_init silent_dialer example_nodeID example_nodeMask)
          (endSearch silent_dialer example_nodeID example_nodeMask + 6 * Second)
   \<and> fst (Dial silent_dialer ''nodeid'' ''abcd'') = Fail SessionHandshakeTimeout
   \<and> NewConn example_nodeID example_nodeMask \<in> set (snd (Dial example_dialer ''nodeid'' ''abcd''))
   \<and> session_init example_dialer example_nodeID example_nodeMask = Some 150000000
   \<and> 150000000 < endSearch example_dialer example_nodeID example_nodeMask + 6 * Second
   \<and> fst (Dial example_dialer ''nodeid'' ''abcd'') = Return (Conn example_nodeID example_nodeMask)"
proof -
  have w: "waits (snd (Dial example_dialer ''nodeid'' ''abcd'')) =
       [\<lparr>deadline = Some 6100000000, cancelled = None\<rparr>]"
    by code_simp
  have e: "endSearch example_dialer i m + 6 * Second = 6100000000" for i m
    by (simp add: example_dialer_def Second_def)
  have g: "map cancelled (waits (snd (Dial example_dialer ''nodeid'' ''abcd''))) = [None]
   \<and> map deadline (waits (snd (Dial example_dialer ''nodeid'' ''abcd''))) =
       [Some (endSearch example_dialer (copy_array 64 [0xAB, 0xCD]) (all_ones 64) + 6 * Second)]"
    by (simp add: w e)
  have n1: "NewConn example_nodeID example_nodeMask \<in> set (snd (Dial silent_dialer ''nodeid'' ''abcd''))"
    by code_simp
  have n2: "NewConn example_nodeID example_nodeMask \<in> set (snd (Dial example_dialer ''nodeid'' ''abcd''))"
    by code_simp
  have s1: "search silent_dialer example_nodeID example_nodeMask = None"
    "\<not> ready (session_init silent_dialer example_nodeID example_nodeMask)
          (endSearch silent_dialer example_nodeID example_nodeMask + 6 * Second)"
    by (simp_all add: silent_dialer_def example_dialer_def ready_def)
  have s2: "search example_dialer example_nodeID example_nodeMask = None"
    "session_init example_dialer example_nodeID example_nodeMask = Some 150000000"
    "150000000 < endSearch example_dialer example_nodeID example_nodeMask + 6 * Second"
    by (simp_all add: example_dialer_def Second_def)
  have t: "fst (Dial silent_dialer ''nodeid'' ''abcd'') = Fail SessionHandshakeTimeout"
    using dial_is_nil_context [of silent_dialer "''nodeid''" "''abcd''"] n1 s1 by blast
  have r: "fst (Dial example_dialer ''nodeid'' ''abcd'') = Return (Conn example_nodeID example_nodeMask)"
    using dial_is_nil_context [of example_dialer "''nodeid''" "''abcd''"] n2 s2 by blast
  show ?thesis
    using g n1 n2 s1 s2 t r dial_is_nil_context [of example_dialer "''nodeid''" "''abcd''"]
    by blast
qed

end
